theory Spec2Isabelle
  imports Complex_Main
begin

section \<open>Data model (src/types/fpl.ts)\<close>

text \<open>
  Only the fields that the modelled functions read are kept. Identifiers, prices, minutes,
  points, difficulty and strength ratings are integers in the statistics API
  (\<open>now_cost\<close> is a price in tenths), so they are \<open>int\<close> here; every quotient the
  code forms from them is taken in \<open>real\<close>, exactly, where the program computes in IEEE
  doubles.

  The API delivers \<open>form\<close> and \<open>points_per_game\<close> as decimal strings, and the code
  reads them only through \<open>parseFloat(s) || 0\<close>. The record holds what
  \<open>parseFloat\<close> returns for the string: \<open>None\<close> stands for NaN. The operator
  \<open>|| 0\<close> is \<open>orZero\<close>.
\<close>

datatype Status = Available | Doubtful | Injured | Suspended | Unavailable

record Player =
  player_id :: int
  element_type :: int
  team :: int
  status :: Status
  now_cost :: int
  points_per_game :: "real option"
  form :: "real option"
  chance_of_playing_this_round :: "int option"
  minutes :: int

definition orZero :: "real option \<Rightarrow> real" where
  "orZero v = (case v of None \<Rightarrow> 0 | Some x \<Rightarrow> x)"

datatype Formation = F343 | F352 | F433 | F442 | F451 | F532 | F541

section \<open>Squad store (src/store/teamStore.ts)\<close>

record TeamState =
  teamId :: "int option"
  teamName :: string
  managerName :: string
  players :: "Player list"
  formation :: Formation
  budget :: int
  teamValue :: int
  captain :: "int option"
  viceCaptain :: "int option"
  isLoading :: bool
  error :: "string option"

definition initialState :: TeamState where
  "initialState =
     \<lparr> teamId = None, teamName = [], managerName = [], players = [],
       formation = F343, budget = 1000, teamValue = 0,
       captain = None, viceCaptain = None, isLoading = False, error = None \<rparr>"

text \<open>\<open>players.reduce((sum, p) => sum + p.now_cost, 0)\<close>\<close>

definition sumCost :: "Player list \<Rightarrow> int" where
  "sumCost ps = foldl (\<lambda>s p. s + now_cost p) 0 ps"

definition getPositionCount :: "TeamState \<Rightarrow> int \<Rightarrow> nat" where
  "getPositionCount st elementType =
     length (filter (\<lambda>p. element_type p = elementType) (players st))"

definition getTeamPlayerCount :: "TeamState \<Rightarrow> int \<Rightarrow> nat" where
  "getTeamPlayerCount st tid = length (filter (\<lambda>p. team p = tid) (players st))"

definition getRemainingBudget :: "TeamState \<Rightarrow> int" where
  "getRemainingBudget st = budget st + (1000 - teamValue st)"

text \<open>The lookup tables of \<open>canAddPlayer\<close> and \<open>fplApi.getPositionName\<close>; a key
  outside 1..4 reads \<open>undefined\<close>.\<close>

definition positionLimits :: "int \<Rightarrow> nat option" where
  "positionLimits t =
     (if t = 1 then Some 2 else if t = 2 then Some 5
      else if t = 3 then Some 5 else if t = 4 then Some 3 else None)"

definition getPositionName :: "int \<Rightarrow> string" where
  "getPositionName t =
     (if t = 1 then ''GK'' else if t = 2 then ''DEF''
      else if t = 3 then ''MID'' else if t = 4 then ''FWD'' else ''UNKNOWN'')"

text \<open>Decimal rendering of a number inside a template string.\<close>

fun numberToString :: "nat \<Rightarrow> string" where
  "numberToString n =
     (if n < 10 then [char_of (48 + n)]
      else numberToString (n div 10) @ [char_of (48 + n mod 10)])"

declare numberToString.simps [simp del]

record Validation =
  valid :: bool
  reason :: "string option"

text \<open>
  \<open>canAddPlayer\<close>: the checks in the order of the source. A comparison
  \<open>positionCount >= undefined\<close> is false in JavaScript, so an element type without a
  limit passes the quota check.
\<close>

definition canAddPlayer :: "TeamState \<Rightarrow> Player \<Rightarrow> Validation" where
  "canAddPlayer st player =
     (let positionCount = getPositionCount st (element_type player);
          limit = positionLimits (element_type player);
          teamPlayerCount = getTeamPlayerCount st (team player);
          remainingBudget = budget st + teamValue st;
          newTeamValue = teamValue st + now_cost player
      in if length (players st) \<ge> 15 then
           \<lparr> valid = False, reason = Some ''Squad is full (15 players maximum)'' \<rparr>
         else if list_ex (\<lambda>p. player_id p = player_id player) (players st) then
           \<lparr> valid = False, reason = Some ''Player already in team'' \<rparr>
         else if (case limit of None \<Rightarrow> False | Some l \<Rightarrow> positionCount \<ge> l) then
           \<lparr> valid = False,
             reason = Some (''Maximum ''
                            @ (case limit of None \<Rightarrow> ''undefined'' | Some l \<Rightarrow> numberToString l)
                            @ '' '' @ getPositionName (element_type player) @ '' allowed'') \<rparr>
         else if teamPlayerCount \<ge> 3 then
           \<lparr> valid = False, reason = Some ''Maximum 3 players from same team allowed'' \<rparr>
         else if newTeamValue > remainingBudget then
           \<lparr> valid = False, reason = Some ''Insufficient budget'' \<rparr>
         else \<lparr> valid = True, reason = None \<rparr>)"

text \<open>
  The actions. \<open>set(partial)\<close> of the store merges the given fields into the state, so
  each action is a record update of the state read by \<open>get()\<close>.
\<close>

definition addPlayer :: "TeamState \<Rightarrow> Player \<Rightarrow> TeamState" where
  "addPlayer st player =
     (let validation = canAddPlayer st player
      in if \<not> valid validation then st\<lparr> error := reason validation \<rparr>
         else
           (let newPlayers = players st @ [player];
                newTeamValue = sumCost newPlayers
            in st\<lparr> players := newPlayers, teamValue := newTeamValue, error := None \<rparr>))"

definition removePlayer :: "TeamState \<Rightarrow> int \<Rightarrow> TeamState" where
  "removePlayer st playerId =
     (let newPlayers = filter (\<lambda>p. player_id p \<noteq> playerId) (players st);
          newTeamValue = sumCost newPlayers
      in st\<lparr> players := newPlayers, teamValue := newTeamValue,
              captain := (if captain st = Some playerId then None else captain st),
              viceCaptain := (if viceCaptain st = Some playerId then None else viceCaptain st),
              error := None \<rparr>)"

definition setCaptain :: "TeamState \<Rightarrow> int \<Rightarrow> TeamState" where
  "setCaptain st playerId =
     (case find (\<lambda>p. player_id p = playerId) (players st) of
        None \<Rightarrow> st\<lparr> error := Some ''Player not in team'' \<rparr>
      | Some player \<Rightarrow>
          st\<lparr> captain := Some playerId,
              viceCaptain := (if viceCaptain st = Some playerId then None else viceCaptain st),
              error := None \<rparr>)"

definition setViceCaptain :: "TeamState \<Rightarrow> int \<Rightarrow> TeamState" where
  "setViceCaptain st playerId =
     (case find (\<lambda>p. player_id p = playerId) (players st) of
        None \<Rightarrow> st\<lparr> error := Some ''Player not in team'' \<rparr>
      | Some player \<Rightarrow>
          if captain st = Some playerId
          then st\<lparr> error := Some ''Captain cannot be vice-captain'' \<rparr>
          else st\<lparr> viceCaptain := Some playerId, error := None \<rparr>)"

text \<open>\<open>clearTeam\<close> writes every field of \<open>initialState\<close> back into the store.\<close>

definition clearTeam :: "TeamState \<Rightarrow> TeamState" where
  "clearTeam st =
     st\<lparr> teamId := teamId initialState, teamName := teamName initialState,
         managerName := managerName initialState, players := players initialState,
         formation := formation initialState, budget := budget initialState,
         teamValue := teamValue initialState, captain := captain initialState,
         viceCaptain := viceCaptain initialState, isLoading := isLoading initialState,
         error := error initialState \<rparr>"

text \<open>A sequence of user actions, run from the initial state.\<close>

datatype Action =
    AddPlayer Player
  | RemovePlayer int
  | SetCaptain int
  | SetViceCaptain int
  | ClearTeam

fun step :: "TeamState \<Rightarrow> Action \<Rightarrow> TeamState" where
  "step st (AddPlayer p) = addPlayer st p"
| "step st (RemovePlayer i) = removePlayer st i"
| "step st (SetCaptain i) = setCaptain st i"
| "step st (SetViceCaptain i) = setViceCaptain st i"
| "step st ClearTeam = clearTeam st"

definition run :: "Action list \<Rightarrow> TeamState" where
  "run acts = foldl step initialState acts"

section \<open>Point prediction (src/lib/predictions.ts)\<close>

record Team =
  team_id :: int
  strength_attack_home :: int
  strength_attack_away :: int
  strength_defence_home :: int
  strength_defence_away :: int

record Fixture =
  team_h :: int
  team_a :: int
  team_h_difficulty :: int
  team_a_difficulty :: int

record PlayerHistory =
  total_points :: int

datatype Confidence = HIGH | MEDIUM | LOW

datatype Venue = Home | Away

record Reasoning =
  reasoning_form :: real
  reasoning_fixtureDifficulty :: real
  reasoning_homeAway :: Venue
  reasoning_minutesCertainty :: real

record PlayerPrediction =
  playerId :: int
  predictedPoints :: int
  confidence :: Confidence
  reasoning :: Reasoning

record PredictionFactors =
  factor_form :: real
  factor_fixtureDifficulty :: real
  factor_homeAway :: real
  factor_minutesCertainty :: real

text \<open>
  \<open>calculateFormScore\<close>: with a non-empty history the mean of the last five entries
  (\<open>slice(-5)\<close> keeps the whole array when it is shorter), capped above at 10 only.
\<close>

definition calculateFormScore :: "Player \<Rightarrow> PlayerHistory list option \<Rightarrow> real" where
  "calculateFormScore player history =
     (let formValue = orZero (form player)
      in case history of
           None \<Rightarrow> min (formValue * 2) 10
         | Some h \<Rightarrow>
             if length h > 0 then
               (let last5Games = drop (length h - 5) h;
                    avgPoints = real_of_int (foldl (\<lambda>sum g. sum + total_points g) 0 last5Games)
                                / real (length last5Games)
                in min avgPoints 10)
             else min (formValue * 2) 10)"

definition calculateFixtureDifficultyScore ::
  "Player \<Rightarrow> Fixture option \<Rightarrow> Team list \<Rightarrow> real" where
  "calculateFixtureDifficultyScore player fixture teams =
     (case fixture of
        None \<Rightarrow> 5
      | Some fx \<Rightarrow>
          (case find (\<lambda>t. team_id t = team player) teams of
             None \<Rightarrow> 5
           | Some playerTeam \<Rightarrow>
               (let isHome = (team_h fx = team player);
                    difficulty = (if isHome then team_h_difficulty fx else team_a_difficulty fx);
                    baseScore = 11 - real_of_int difficulty * 2
                in max 0 (min baseScore 10))))"

definition calculateHomeAwayScore ::
  "Player \<Rightarrow> Fixture option \<Rightarrow> Team list \<Rightarrow> real" where
  "calculateHomeAwayScore player fixture teams =
     (case fixture of
        None \<Rightarrow> 5
      | Some fx \<Rightarrow>
          (let isHome = (team_h fx = team player)
           in case find (\<lambda>t. team_id t = team player) teams of
                None \<Rightarrow> 5
              | Some playerTeam \<Rightarrow>
                  if element_type player = 1 \<or> element_type player = 2 then
                    (let strength = (if isHome then strength_defence_home playerTeam
                                     else strength_defence_away playerTeam)
                     in (real_of_int strength / 140) * 10)
                  else
                    (let strength = (if isHome then strength_attack_home playerTeam
                                     else strength_attack_away playerTeam)
                     in (real_of_int strength / 140) * 10)))"

text \<open>
  \<open>calculateMinutesCertaintyScore\<close>: the local \<open>score\<close> is threaded through the
  statements as \<open>score1\<close> .. \<open>score4\<close>; each \<open>return\<close> is a branch. The two
  chance penalties are separate \<open>if\<close> statements, the three minutes adjustments an
  \<open>if / else if\<close> chain.
\<close>

definition calculateMinutesCertaintyScore :: "Player \<Rightarrow> real" where
  "calculateMinutesCertaintyScore player =
     (if status player \<noteq> Available \<and> (status player = Injured \<or> status player = Suspended)
      then 0
      else
        (let score1 = (if status player \<noteq> Available then 5 - 3 else (5::real))
         in if chance_of_playing_this_round player = Some 0 then 0
            else
              (let score2 = (case chance_of_playing_this_round player of
                               None \<Rightarrow> score1
                             | Some c \<Rightarrow> if c < 50 then score1 - 2 else score1);
                   score3 = (case chance_of_playing_this_round player of
                               None \<Rightarrow> score2
                             | Some c \<Rightarrow> if c < 75 then score2 - 1 else score2);
                   totalMinutes = minutes player;
                   possibleMinutes = 90 * 20;
                   minutesRatio = real_of_int totalMinutes / possibleMinutes;
                   score4 = (if minutesRatio > 0.8 then score3 + 3
                             else if minutesRatio > 0.6 then score3 + 1
                             else if minutesRatio < 0.3 then score3 - 2
                             else score3)
               in max 0 (min score4 10))))"

definition calculateConfidence :: "PredictionFactors \<Rightarrow> Confidence" where
  "calculateConfidence factors =
     (if factor_minutesCertainty factors \<ge> 7 \<and> factor_form factors \<ge> 5
         \<and> factor_fixtureDifficulty factors \<ge> 6 then HIGH
      else if factor_minutesCertainty factors < 4 \<or> factor_form factors < 3
              \<or> factor_fixtureDifficulty factors < 3 then LOW
      else MEDIUM)"

text \<open>
  \<open>predictPlayerPoints\<close>. \<open>Math.round\<close> rounds to the nearest integer with ties
  towards plus infinity, which is \<open>round\<close> (\<open>round x = \<lfloor>x + 1/2\<rfloor>\<close>).
\<close>

definition weightedScore :: "PredictionFactors \<Rightarrow> real" where
  "weightedScore factors =
     factor_form factors * 0.4 + factor_fixtureDifficulty factors * 0.3
     + factor_homeAway factors * 0.1 + factor_minutesCertainty factors * 0.2"

definition predictionFactors ::
  "Player \<Rightarrow> Fixture option \<Rightarrow> Team list \<Rightarrow> PlayerHistory list option \<Rightarrow> PredictionFactors" where
  "predictionFactors player nextFixture teams history =
     \<lparr> factor_form = calculateFormScore player history,
       factor_fixtureDifficulty = calculateFixtureDifficultyScore player nextFixture teams,
       factor_homeAway = calculateHomeAwayScore player nextFixture teams,
       factor_minutesCertainty = calculateMinutesCertaintyScore player \<rparr>"

definition predictPlayerPoints ::
  "Player \<Rightarrow> Fixture option \<Rightarrow> Team list \<Rightarrow> PlayerHistory list option \<Rightarrow> PlayerPrediction" where
  "predictPlayerPoints player nextFixture teams history =
     (let factors = predictionFactors player nextFixture teams history;
          predictedPoints = round (weightedScore factors * 1.5)
      in \<lparr> playerId = player_id player,
           predictedPoints = predictedPoints,
           confidence = calculateConfidence factors,
           reasoning =
             \<lparr> reasoning_form = factor_form factors,
               reasoning_fixtureDifficulty = factor_fixtureDifficulty factors,
               reasoning_homeAway =
                 (case nextFixture of
                    None \<Rightarrow> Home
                  | Some fx \<Rightarrow> if team_h fx = team player then Home else Away),
               reasoning_minutesCertainty = factor_minutesCertainty factors \<rparr> \<rparr>)"

section \<open>Transfer suggestions (src/components/transfers/TransferPlanner.tsx)\<close>

record Metrics =
  metric_base :: real
  metric_mins :: real
  metric_fixt :: real
  metric_form :: real

record TransferSuggestion =
  playerOut :: Player
  playerIn :: Player
  expectedGain :: real
  metrics :: Metrics

text \<open>\<open>teamTeams\<close>: how many squad members each club has, built by \<open>reduce\<close>. The
  component's \<open>budget\<close> property is the parameter \<open>bank\<close> below.\<close>

definition teamTeams :: "Player list \<Rightarrow> (int \<Rightarrow> nat option)" where
  "teamTeams teamPlayers =
     foldl (\<lambda>acc p. acc(team p \<mapsto> (case acc (team p) of None \<Rightarrow> 0 | Some n \<Rightarrow> n) + 1))
           Map.empty teamPlayers"

definition candidates :: "Player list \<Rightarrow> Player list \<Rightarrow> int \<Rightarrow> Player \<Rightarrow> Player list" where
  "candidates teamPlayers allPlayers bank pOut =
     (let teamPlayerIds = set (map player_id teamPlayers);
          availableBudget = bank + now_cost pOut
      in take 100
           (filter
              (\<lambda>p. if element_type p \<noteq> element_type pOut then False
                   else if player_id p \<in> teamPlayerIds then False
                   else if now_cost p > availableBudget then False
                   else
                     (let sameTeamCount =
                            (case teamTeams teamPlayers (team p) of None \<Rightarrow> 0 | Some n \<Rightarrow> n)
                      in if team p \<noteq> team pOut \<and> sameTeamCount \<ge> 3 then False
                         else if status p \<noteq> Available \<and> status p \<noteq> Doubtful then False
                         else True))
              allPlayers))"

text \<open>The body of \<open>candidates.forEach\<close> up to the record it may push.\<close>

definition scorePair :: "Player \<Rightarrow> Player \<Rightarrow> TransferSuggestion" where
  "scorePair pOut pIn =
     (let formDiff = orZero (form pIn) - orZero (form pOut);
          ppgDiff = orZero (points_per_game pIn) - orZero (points_per_game pOut);
          baseScore = min 100 (max 0 (50 + ppgDiff * 10));
          minsScore = (if status pIn = Available then 80 else 40);
          fixtScore = 70;
          formScore = min 100 (max 0 (50 + formDiff * 20));
          gain = (baseScore * 0.3 + minsScore * 0.2 + fixtScore * 0.2 + formScore * 0.3) / 10
      in \<lparr> playerOut = pOut, playerIn = pIn, expectedGain = gain,
           metrics = \<lparr> metric_base = baseScore, metric_mins = minsScore,
                       metric_fixt = fixtScore, metric_form = formScore \<rparr> \<rparr>)"

text \<open>
  \<open>results\<close> collects, squad member by squad member and candidate by candidate, the
  pairs whose gain exceeds 5. \<open>Array.prototype.sort\<close> is stable, and so is
  \<open>sort_key\<close>; the comparator \<open>b.expectedGain - a.expectedGain\<close> orders by falling
  gain.
\<close>

definition results :: "Player list \<Rightarrow> Player list \<Rightarrow> int \<Rightarrow> TransferSuggestion list" where
  "results teamPlayers allPlayers bank =
     concat (map (\<lambda>pOut. filter (\<lambda>s. expectedGain s > 5)
                            (map (scorePair pOut) (candidates teamPlayers allPlayers bank pOut)))
                 teamPlayers)"

definition suggestions :: "Player list \<Rightarrow> Player list \<Rightarrow> int \<Rightarrow> TransferSuggestion list" where
  "suggestions teamPlayers allPlayers bank =
     take 9 (sort_key (\<lambda>s. - expectedGain s) (results teamPlayers allPlayers bank))"

text \<open>The spec's \<open>clamp(lo, hi, x)\<close>.\<close>

definition clamp :: "real \<Rightarrow> real \<Rightarrow> real \<Rightarrow> real" where
  "clamp lo hi x = max lo (min hi x)"

section \<open>Terms of the specification\<close>

text \<open>
  The conditions under which the specification says \<open>addPlayer\<close> rejects: a full
  squad (15 members, or more), a player already present, a met position
  quota (2 goalkeepers, 5 defenders, 5 midfielders, 3 forwards), a fourth player of one
  club, and a price that lifts the squad value above bank plus current squad value. The
  counts are taken over the squad itself: the members of the position, the members of the
  club.
\<close>

definition compositionRejected :: "TeamState \<Rightarrow> Player \<Rightarrow> bool" where
  "compositionRejected st p \<longleftrightarrow>
       length (players st) \<ge> 15
     \<or> player_id p \<in> player_id ` set (players st)
     \<or> (element_type p = 1 \<and> length (filter (\<lambda>q. element_type q = 1) (players st)) \<ge> 2)
     \<or> (element_type p = 2 \<and> length (filter (\<lambda>q. element_type q = 2) (players st)) \<ge> 5)
     \<or> (element_type p = 3 \<and> length (filter (\<lambda>q. element_type q = 3) (players st)) \<ge> 5)
     \<or> (element_type p = 4 \<and> length (filter (\<lambda>q. element_type q = 4) (players st)) \<ge> 3)
     \<or> length (filter (\<lambda>q. team q = team p) (players st)) + 1 > 3"

definition addRejected :: "TeamState \<Rightarrow> Player \<Rightarrow> bool" where
  "addRejected st p \<longleftrightarrow>
     compositionRejected st p \<or> teamValue st + now_cost p > budget st + teamValue st"

text \<open>The invariant of the two designations.\<close>

definition designationsOk :: "TeamState \<Rightarrow> bool" where
  "designationsOk st \<longleftrightarrow>
     (\<forall>c. captain st = Some c \<longrightarrow> c \<in> player_id ` set (players st))
   \<and> (\<forall>v. viceCaptain st = Some v \<longrightarrow> v \<in> player_id ` set (players st))
   \<and> (\<forall>c. captain st = Some c \<longrightarrow> viceCaptain st \<noteq> Some c)"

text \<open>
  The minutes-certainty score in the specification's words. It starts at 5 and is 0 for an
  injured or suspended player; another status than available takes 3 off. The two lists
  that follow are threshold tables, read alike, the first matching row deciding: a chance
  of playing of 0 gives 0, below 50 takes 2 off, below 75 takes 1 off; and, against 20
  matches of 90 minutes, above 80 percent of the possible minutes puts 3 on, above 60
  percent 1 on, below 30 percent takes 2 off. The result is clamped to [0, 10].
\<close>

definition statusPenalty :: "Player \<Rightarrow> real" where
  "statusPenalty p = (if status p = Available then 0 else 3)"

definition chancePenaltyListed :: "Player \<Rightarrow> real" where
  "chancePenaltyListed p =
     (case chance_of_playing_this_round p of
        None \<Rightarrow> 0
      | Some c \<Rightarrow> if c < 50 then 2 else if c < 75 then 1 else 0)"

definition minutesAdjustment :: "Player \<Rightarrow> real" where
  "minutesAdjustment p =
     (let possible = 20 * 90
      in if real_of_int (minutes p) > 0.8 * possible then 3
         else if real_of_int (minutes p) > 0.6 * possible then 1
         else if real_of_int (minutes p) < 0.3 * possible then - 2
         else 0)"

definition minutesCertaintyListed :: "Player \<Rightarrow> real" where
  "minutesCertaintyListed p =
     (if status p = Injured \<or> status p = Suspended then 0
      else if chance_of_playing_this_round p = Some 0 then 0
      else clamp 0 10 (5 - statusPenalty p - chancePenaltyListed p + minutesAdjustment p))"

text \<open>
  The chance penalty with both rows applied: 2 off below 50 and, in addition, 1 off below
  75, so that a chance below 50 loses 3.
\<close>

definition chancePenaltyCumulative :: "Player \<Rightarrow> real" where
  "chancePenaltyCumulative p =
     (case chance_of_playing_this_round p of
        None \<Rightarrow> 0
      | Some c \<Rightarrow> (if c < 50 then 2 else 0) + (if c < 75 then 1 else 0))"

text \<open>
  The scoring of a transfer pair in the specification's formulas, for given points per
  game and form of the incoming and the outgoing player.
\<close>

definition scoredAsSpecified ::
  "real \<Rightarrow> real \<Rightarrow> real \<Rightarrow> real \<Rightarrow> TransferSuggestion \<Rightarrow> bool" where
  "scoredAsSpecified ppgIn ppgOut formIn formOut s \<longleftrightarrow>
     (let base = clamp 0 100 (50 + 10 * (ppgIn - ppgOut));
          minutesScore = (if status (playerIn s) = Available then 80 else 40);
          fixtureScore = 70;
          formScore = clamp 0 100 (50 + 20 * (formIn - formOut))
      in metric_base (metrics s) = base
         \<and> metric_mins (metrics s) = minutesScore
         \<and> metric_fixt (metrics s) = fixtureScore
         \<and> metric_form (metrics s) = formScore
         \<and> expectedGain s
             = (0.3 * base + 0.2 * minutesScore + 0.2 * fixtureScore + 0.3 * formScore) / 10)"

definition strictlyDescending :: "TransferSuggestion list \<Rightarrow> bool" where
  "strictlyDescending ss = sorted_wrt (\<lambda>a b. expectedGain a > expectedGain b) ss"

definition descending :: "TransferSuggestion list \<Rightarrow> bool" where
  "descending ss = sorted_wrt (\<lambda>a b. expectedGain a \<ge> expectedGain b) ss"

section \<open>Sample data\<close>

definition salah :: Player where
  "salah = \<lparr> player_id = 1, element_type = 3, team = 1, status = Available, now_cost = 130,
             points_per_game = Some 7, form = Some 5, chance_of_playing_this_round = None,
             minutes = 1800 \<rparr>"

definition haaland :: Player where
  "haaland = \<lparr> player_id = 2, element_type = 4, team = 2, status = Available, now_cost = 140,
               points_per_game = Some 8, form = Some 6, chance_of_playing_this_round = None,
               minutes = 1700 \<rparr>"

definition mings :: Player where
  "mings = \<lparr> player_id = 3, element_type = 2, team = 3, status = Doubtful, now_cost = 45,
             points_per_game = Some 3, form = Some 2, chance_of_playing_this_round = Some 25,
             minutes = 1500 \<rparr>"

definition saka :: Player where
  "saka = \<lparr> player_id = 4, element_type = 3, team = 4, status = Available, now_cost = 100,
            points_per_game = Some 7, form = Some 5, chance_of_playing_this_round = None,
            minutes = 1500 \<rparr>"

definition foden :: Player where
  "foden = \<lparr> player_id = 5, element_type = 3, team = 2, status = Available, now_cost = 95,
             points_per_game = Some 7, form = Some 5, chance_of_playing_this_round = None,
             minutes = 1400 \<rparr>"

definition alisson :: Player where
  "alisson = \<lparr> player_id = 6, element_type = 1, team = 1, status = Injured, now_cost = 55,
               points_per_game = Some 4, form = Some 3, chance_of_playing_this_round = Some 0,
               minutes = 1620 \<rparr>"

definition raya :: Player where
  "raya = \<lparr> player_id = 7, element_type = 1, team = 4, status = Available, now_cost = 55,
            points_per_game = Some 4, form = Some 4, chance_of_playing_this_round = None,
            minutes = 1800 \<rparr>"

definition pope :: Player where
  "pope = \<lparr> player_id = 8, element_type = 1, team = 5, status = Available, now_cost = 50,
            points_per_game = Some 4, form = Some 3, chance_of_playing_this_round = None,
            minutes = 1710 \<rparr>"

definition doku :: Player where
  "doku = \<lparr> player_id = 9, element_type = 3, team = 2, status = Available, now_cost = 65,
            points_per_game = Some 4, form = Some 4, chance_of_playing_this_round = None,
            minutes = 1100 \<rparr>"

definition stones :: Player where
  "stones = \<lparr> player_id = 10, element_type = 2, team = 2, status = Available, now_cost = 55,
              points_per_game = Some 3, form = Some 2, chance_of_playing_this_round = None,
              minutes = 900 \<rparr>"

definition gordon :: Player where
  "gordon = \<lparr> player_id = 11, element_type = 3, team = 5, status = Available, now_cost = 75,
              points_per_game = Some 5, form = Some 4, chance_of_playing_this_round = Some 25,
              minutes = 900 \<rparr>"

definition palmer :: Player where
  "palmer = \<lparr> player_id = 12, element_type = 3, team = 6, status = Available, now_cost = 105,
              points_per_game = Some 8, form = Some 6, chance_of_playing_this_round = None,
              minutes = 1750 \<rparr>"

definition liverpool :: Team where
  "liverpool = \<lparr> team_id = 1, strength_attack_home = 1200, strength_attack_away = 1150,
                 strength_defence_home = 1250, strength_defence_away = 1100 \<rparr>"

definition homeGame :: Fixture where
  "homeGame = \<lparr> team_h = 1, team_a = 2, team_h_difficulty = 2, team_a_difficulty = 4 \<rparr>"

definition session :: "Action list" where
  "session = [AddPlayer salah, AddPlayer haaland, SetCaptain 1, SetViceCaptain 2,
              SetCaptain 2, SetViceCaptain 1, RemovePlayer 1]"

definition squad2 :: TeamState where
  "squad2 = initialState\<lparr> players := [salah, haaland], teamValue := 270,
                           captain := Some 1, viceCaptain := Some 2 \<rparr>"

definition twoKeepers :: TeamState where
  "twoKeepers = initialState\<lparr> players := [alisson, raya], teamValue := 110 \<rparr>"

definition threeCity :: TeamState where
  "threeCity = initialState\<lparr> players := [haaland, foden, doku], teamValue := 300 \<rparr>"

definition tightState :: TeamState where
  "tightState = initialState\<lparr> players := [salah, haaland], teamValue := 270, budget := 30 \<rparr>"

section \<open>Squad store: validation and mutation\<close>

lemma sumCost_foldl: "foldl (\<lambda>s p. s + now_cost p) a ps = a + sum_list (map now_cost ps)"
  by (induction ps arbitrary: a) simp_all

lemma sumCost_sum_list: "sumCost ps = sum_list (map now_cost ps)"
  by (simp add: sumCost_def sumCost_foldl)

lemma quota_iff:
  "(case positionLimits t of None \<Rightarrow> False
    | Some l \<Rightarrow> length (filter (\<lambda>q. element_type q = t) ps) \<ge> l) \<longleftrightarrow>
     (t = 1 \<and> length (filter (\<lambda>q. element_type q = 1) ps) \<ge> 2)
   \<or> (t = 2 \<and> length (filter (\<lambda>q. element_type q = 2) ps) \<ge> 5)
   \<or> (t = 3 \<and> length (filter (\<lambda>q. element_type q = 3) ps) \<ge> 5)
   \<or> (t = 4 \<and> length (filter (\<lambda>q. element_type q = 4) ps) \<ge> 3)"
  by (simp add: positionLimits_def)

lemma list_ex_id: "list_ex (\<lambda>q. player_id q = i) ps \<longleftrightarrow> i \<in> player_id ` set ps"
  by (auto simp: list_ex_iff)

lemma canAddPlayer_valid_iff:
  "valid (canAddPlayer st p) \<longleftrightarrow> \<not> compositionRejected st p \<and> now_cost p \<le> budget st"
  unfolding canAddPlayer_def Let_def compositionRejected_def getPositionCount_def
      getTeamPlayerCount_def quota_iff list_ex_id
  by auto

lemma canAddPlayer_reason:
  "\<not> valid (canAddPlayer st p) \<Longrightarrow> \<exists>r. reason (canAddPlayer st p) = Some r"
  unfolding canAddPlayer_def Let_def
  by (auto split: if_splits)

lemma canAddPlayer_teamValue:
  "canAddPlayer (st\<lparr> teamValue := v \<rparr>) p = canAddPlayer st p"
  by (simp add: canAddPlayer_def Let_def getPositionCount_def getTeamPlayerCount_def)

lemma numberToString_two: "numberToString 2 = ''2''"
  by code_simp

lemma mings_admissible: "\<not> compositionRejected tightState mings"
  by (simp add: compositionRejected_def tightState_def initialState_def mings_def salah_def
      haaland_def)

text \<open>
  Claim C6. \<open>addPlayer\<close> rejects exactly under the five listed conditions
  (\<open>addRejected\<close>): then the state is returned with only a reason string written to
  \<open>error\<close>, the squad and every other field as before. Otherwise the player is appended,
  \<open>teamValue\<close> becomes the sum of all member prices and \<open>error\<close> is cleared. No
  third outcome exists, so the mutation is never partially applied.
\<close>

theorem addPlayer_rejects_exactly:
  "(valid (canAddPlayer st p) \<longleftrightarrow> \<not> addRejected st p)
   \<and> (addRejected st p \<longrightarrow> (\<exists>r. addPlayer st p = st\<lparr> error := Some r \<rparr>))
   \<and> (\<not> addRejected st p \<longrightarrow>
        addPlayer st p = st\<lparr> players := players st @ [p],
                              teamValue := sum_list (map now_cost (players st @ [p])),
                              error := None \<rparr>)"
proof -
  have v: "valid (canAddPlayer st p) \<longleftrightarrow> \<not> addRejected st p"
    by (auto simp: canAddPlayer_valid_iff addRejected_def)
  have r: "\<exists>r. addPlayer st p = st\<lparr> error := Some r \<rparr>" if "addRejected st p"
  proof -
    from that v have nv: "\<not> valid (canAddPlayer st p)" by simp
    then obtain r where "reason (canAddPlayer st p) = Some r"
      using canAddPlayer_reason by blast
    with nv show ?thesis by (auto simp: addPlayer_def Let_def)
  qed
  have a: "addPlayer st p = st\<lparr> players := players st @ [p],
                              teamValue := sum_list (map now_cost (players st @ [p])),
                              error := None \<rparr>" if "\<not> addRejected st p"
    using that v by (simp add: addPlayer_def Let_def sumCost_sum_list)
  from v r a show ?thesis by blast
qed

text \<open>
  The outcomes at concrete inputs: the first player joins the empty squad; adding the same
  player again is rejected and changes nothing but \<open>error\<close>; a squad with two
  goalkeepers refuses a third, and a squad with three players of one club refuses a
  fourth, each with the reason the code gives.
\<close>

theorem addPlayer_rejects_exactly_witness:
  "\<not> addRejected initialState salah
   \<and> addPlayer initialState salah
       = initialState\<lparr> players := [salah], teamValue := 130, error := None \<rparr>
   \<and> addRejected (addPlayer initialState salah) salah
   \<and> (\<exists>r. addPlayer (addPlayer initialState salah) salah
            = (addPlayer initialState salah)\<lparr> error := Some r \<rparr>)
   \<and> addRejected twoKeepers pope
   \<and> addPlayer twoKeepers pope = twoKeepers\<lparr> error := Some ''Maximum 2 GK allowed'' \<rparr>
   \<and> addRejected threeCity stones
   \<and> addPlayer threeCity stones
       = threeCity\<lparr> error := Some ''Maximum 3 players from same team allowed'' \<rparr>"
proof -
  have n: "\<not> addRejected initialState salah"
    by (simp add: addRejected_def compositionRejected_def initialState_def salah_def)
  have e: "addPlayer initialState salah
       = initialState\<lparr> players := [salah], teamValue := 130, error := None \<rparr>"
    using n addPlayer_rejects_exactly [of initialState salah]
    by (simp add: initialState_def salah_def)
  have y: "addRejected (addPlayer initialState salah) salah"
    by (simp add: e addRejected_def compositionRejected_def)
  have d: "\<exists>r. addPlayer (addPlayer initialState salah) salah
            = (addPlayer initialState salah)\<lparr> error := Some r \<rparr>"
    using y addPlayer_rejects_exactly [of "addPlayer initialState salah" salah] by blast
  have k: "addRejected twoKeepers pope"
    by (simp add: addRejected_def compositionRejected_def twoKeepers_def initialState_def
        alisson_def raya_def pope_def)
  have c: "addRejected threeCity stones"
    by (simp add: addRejected_def compositionRejected_def threeCity_def initialState_def
        haaland_def foden_def doku_def stones_def)
  have kr: "reason (canAddPlayer twoKeepers pope) = Some ''Maximum 2 GK allowed''"
    by (simp add: canAddPlayer_def Let_def twoKeepers_def initialState_def alisson_def raya_def
        pope_def getPositionCount_def getTeamPlayerCount_def positionLimits_def
        getPositionName_def numberToString_two)
  have cr: "reason (canAddPlayer threeCity stones)
            = Some ''Maximum 3 players from same team allowed''"
    by (simp add: canAddPlayer_def Let_def threeCity_def initialState_def haaland_def foden_def
        doku_def stones_def getPositionCount_def getTeamPlayerCount_def positionLimits_def)
  have ka: "addPlayer twoKeepers pope = twoKeepers\<lparr> error := Some ''Maximum 2 GK allowed'' \<rparr>"
    using k addPlayer_rejects_exactly [of twoKeepers pope] kr
    by (simp add: addPlayer_def Let_def)
  have ca: "addPlayer threeCity stones
            = threeCity\<lparr> error := Some ''Maximum 3 players from same team allowed'' \<rparr>"
    using c addPlayer_rejects_exactly [of threeCity stones] cr
    by (simp add: addPlayer_def Let_def)
  from n e y d k ka c ca show ?thesis by blast
qed

subsection \<open>Captain and vice-captain\<close>

lemma find_id_Some:
  "find (\<lambda>p. player_id p = i) ps = Some q \<Longrightarrow> i \<in> player_id ` set ps"
  by (auto simp: find_Some_iff)

lemma ok_initial: "designationsOk initialState"
  by (simp add: designationsOk_def initialState_def)

lemma ok_addPlayer: "designationsOk st \<Longrightarrow> designationsOk (addPlayer st p)"
  by (auto simp: designationsOk_def addPlayer_def Let_def)

lemma ok_removePlayer: "designationsOk st \<Longrightarrow> designationsOk (removePlayer st i)"
  by (auto simp: designationsOk_def removePlayer_def Let_def)

lemma ok_setCaptain: "designationsOk st \<Longrightarrow> designationsOk (setCaptain st i)"
  by (auto simp: designationsOk_def setCaptain_def split: option.splits dest: find_id_Some)

lemma ok_setViceCaptain: "designationsOk st \<Longrightarrow> designationsOk (setViceCaptain st i)"
  by (auto simp: designationsOk_def setViceCaptain_def split: option.splits dest: find_id_Some)

lemma ok_clearTeam: "designationsOk (clearTeam st)"
  by (simp add: designationsOk_def clearTeam_def initialState_def)

lemma ok_step: "designationsOk st \<Longrightarrow> designationsOk (step st a)"
  by (cases a)
     (simp_all add: ok_addPlayer ok_removePlayer ok_setCaptain ok_setViceCaptain ok_clearTeam)

lemma ok_foldl: "designationsOk st \<Longrightarrow> designationsOk (foldl step st acts)"
  by (induction acts arbitrary: st) (simp_all add: ok_step)

lemma run_session:
  "captain (run session) = Some 2 \<and> viceCaptain (run session) = None"
  by (simp add: run_def session_def addPlayer_def canAddPlayer_def initialState_def Let_def
      salah_def haaland_def getPositionCount_def getTeamPlayerCount_def positionLimits_def
      setCaptain_def setViceCaptain_def removePlayer_def sumCost_def)

text \<open>
  Claim C7. After any sequence of \<open>addPlayer\<close>, \<open>removePlayer\<close>, \<open>setCaptain\<close>,
  \<open>setViceCaptain\<close> and \<open>clearTeam\<close> from the initial state, the captain, when set,
  is the id of a squad member, so is the vice-captain, and the two differ whenever the
  captain is set. That there is at most one of each is the type of the state: each
  designation is one optional id.
\<close>

theorem captaincy_invariant:
  "(\<forall>c. captain (run acts) = Some c \<longrightarrow> c \<in> player_id ` set (players (run acts)))
   \<and> (\<forall>v. viceCaptain (run acts) = Some v \<longrightarrow> v \<in> player_id ` set (players (run acts)))
   \<and> (\<forall>c. captain (run acts) = Some c \<longrightarrow> viceCaptain (run acts) \<noteq> Some c)"
  using ok_foldl [OF ok_initial, of acts] by (simp add: run_def designationsOk_def)

text \<open>
  A session that moves the captaincy to the vice-captain, fails to make the captain
  vice-captain, and removes the former captain: the captain is player 2, a member.
\<close>

theorem captaincy_invariant_witness:
  "captain (run session) = Some 2 \<and> 2 \<in> player_id ` set (players (run session))
   \<and> viceCaptain (run session) \<noteq> Some 2"
  using captaincy_invariant [of session] run_session by simp

text \<open>
  Claim C8. Removing the captain clears the captain, removing the vice-captain clears the
  vice-captain, removing anyone else leaves both designations as they were; in every case
  the players with the given id are gone and \<open>teamValue\<close> is the sum of the remaining
  members' prices.
\<close>

theorem removePlayer_designations_and_value:
  "(captain st = Some pid \<longrightarrow> captain (removePlayer st pid) = None)
   \<and> (viceCaptain st = Some pid \<longrightarrow> viceCaptain (removePlayer st pid) = None)
   \<and> (captain st \<noteq> Some pid \<and> viceCaptain st \<noteq> Some pid \<longrightarrow>
        captain (removePlayer st pid) = captain st
        \<and> viceCaptain (removePlayer st pid) = viceCaptain st)
   \<and> players (removePlayer st pid) = filter (\<lambda>p. player_id p \<noteq> pid) (players st)
   \<and> teamValue (removePlayer st pid) = sum_list (map now_cost (players (removePlayer st pid)))"
  by (simp add: removePlayer_def Let_def sumCost_sum_list)

text \<open>
  A squad of two with captain 1 and vice-captain 2: removing either clears that
  designation only, removing an absent id 7 changes neither, and after removing player 1
  the value is the other member's price.
\<close>

theorem removePlayer_designations_and_value_witness:
  "captain squad2 = Some 1 \<and> captain (removePlayer squad2 1) = None
   \<and> viceCaptain squad2 = Some 2 \<and> viceCaptain (removePlayer squad2 2) = None
   \<and> captain (removePlayer squad2 7) = Some 1 \<and> viceCaptain (removePlayer squad2 7) = Some 2
   \<and> teamValue (removePlayer squad2 1) = 140"
proof -
  have c: "captain squad2 = Some 1" and v: "viceCaptain squad2 = Some 2"
    by (simp_all add: squad2_def)
  have p: "players squad2 = [salah, haaland]" by (simp add: squad2_def)
  have "captain (removePlayer squad2 1) = None"
    using removePlayer_designations_and_value [of squad2 1] c by simp
  moreover have "viceCaptain (removePlayer squad2 2) = None"
    using removePlayer_designations_and_value [of squad2 2] v by simp
  moreover have "captain (removePlayer squad2 7) = Some 1
                 \<and> viceCaptain (removePlayer squad2 7) = Some 2"
    using removePlayer_designations_and_value [of squad2 7] c v by simp
  moreover have "teamValue (removePlayer squad2 1) = 140"
    using removePlayer_designations_and_value [of squad2 1] p
    by (simp add: salah_def haaland_def)
  ultimately show ?thesis using c v by simp
qed

subsection \<open>Budget\<close>

text \<open>
  Claim C9. \<open>canAddPlayer\<close> accepts a player exactly when none of the composition
  checks rejects and the price is at most the bank (\<open>budget\<close>); past the composition
  checks the reason is "Insufficient budget" exactly when the price exceeds the bank.
  \<open>teamValue\<close> stands on both sides of the comparison and cancels: replacing it by any
  value leaves the result of \<open>canAddPlayer\<close> as it was.
\<close>

theorem budget_check_is_bank_only:
  "(valid (canAddPlayer st p) \<longleftrightarrow> \<not> compositionRejected st p \<and> now_cost p \<le> budget st)
   \<and> (\<not> compositionRejected st p \<longrightarrow>
        (reason (canAddPlayer st p) = Some ''Insufficient budget'' \<longleftrightarrow> budget st < now_cost p))
   \<and> canAddPlayer (st\<lparr> teamValue := v \<rparr>) p = canAddPlayer st p"
proof -
  have "reason (canAddPlayer st p) = Some ''Insufficient budget'' \<longleftrightarrow> budget st < now_cost p"
    if "\<not> compositionRejected st p"
    using that unfolding canAddPlayer_def Let_def compositionRejected_def getPositionCount_def
      getTeamPlayerCount_def quota_iff list_ex_id
    by auto
  then show ?thesis
    using canAddPlayer_valid_iff canAddPlayer_teamValue by blast
qed

text \<open>With 3.0 in the bank a defender priced 4.5 is refused for the budget alone.\<close>

theorem budget_check_is_bank_only_witness:
  "\<not> compositionRejected tightState mings
   \<and> reason (canAddPlayer tightState mings) = Some ''Insufficient budget''
   \<and> \<not> valid (canAddPlayer tightState mings)"
  using budget_check_is_bank_only [of tightState mings] mings_admissible
  by (simp add: tightState_def mings_def)

text \<open>
  Claim C10. \<open>getRemainingBudget\<close> returns \<open>budget + (1000 - teamValue)\<close>, with the
  ceiling 1000 written into the code. Whenever \<open>teamValue\<close> is not 1000 this is not the
  bank, which is the headroom \<open>canAddPlayer\<close> enforces: a player who passes the
  composition checks is accepted exactly when the price is at most the reported remaining
  budget less \<open>1000 - teamValue\<close>.
\<close>

theorem getRemainingBudget_hardcoded_ceiling:
  "getRemainingBudget st = budget st + (1000 - teamValue st)
   \<and> (teamValue st \<noteq> 1000 \<longrightarrow> getRemainingBudget st \<noteq> budget st)
   \<and> (\<not> compositionRejected st p \<longrightarrow>
        (valid (canAddPlayer st p)
         \<longleftrightarrow> now_cost p \<le> getRemainingBudget st - (1000 - teamValue st)))"
  by (simp add: getRemainingBudget_def canAddPlayer_valid_iff)

text \<open>
  A squad worth 27.0 with 3.0 in the bank reports 76.0 remaining, yet a 4.5 defender is
  refused.
\<close>

theorem getRemainingBudget_hardcoded_ceiling_witness:
  "teamValue tightState \<noteq> 1000 \<and> getRemainingBudget tightState = 760
   \<and> getRemainingBudget tightState \<noteq> budget tightState
   \<and> now_cost mings \<le> getRemainingBudget tightState
   \<and> \<not> valid (canAddPlayer tightState mings)"
  using getRemainingBudget_hardcoded_ceiling [of tightState mings] mings_admissible
  by (simp add: tightState_def mings_def)


section \<open>Point prediction\<close>

lemma clamp10_range: "0 \<le> max 0 (min x 10) \<and> max 0 (min x (10::real)) \<le> 10"
  by simp

lemma minutesAdjustment_ratio:
  "minutesAdjustment p =
     (let r = real_of_int (minutes p) / (90 * 20)
      in if r > 0.8 then 3 else if r > 0.6 then 1 else if r < 0.3 then - 2 else 0)"
  by (simp add: minutesAdjustment_def Let_def)

lemma minutesCertainty_shape:
  "calculateMinutesCertaintyScore p =
     (if status p = Injured \<or> status p = Suspended then 0
      else if chance_of_playing_this_round p = Some 0 then 0
      else max 0 (min (5 - statusPenalty p - chancePenaltyCumulative p + minutesAdjustment p) 10))"
proof -
  define r where "r = real_of_int (minutes p) / (90 * 20)"
  define adj :: real where
    "adj = (if r > 0.8 then 3 else if r > 0.6 then 1 else if r < 0.3 then - 2 else 0)"
  have a: "minutesAdjustment p = adj"
    unfolding minutesAdjustment_ratio Let_def adj_def r_def by (rule refl)
  have s4: "(if r > 0.8 then x + 3 else if r > 0.6 then x + 1 else if r < 0.3 then x - 2 else x)
            = x + adj" for x :: real
    unfolding adj_def
    by (simp only: if_distrib [of "\<lambda>y. x + y"] add_0_right add_uminus_conv_diff cong: if_cong)
  show ?thesis
    unfolding calculateMinutesCertaintyScore_def Let_def r_def [symmetric] s4 a
    by (cases "chance_of_playing_this_round p"; cases "status p")
       (simp_all add: statusPenalty_def chancePenaltyCumulative_def)
qed

lemma minutesAdjustment_salah: "minutesAdjustment salah = 3"
  by (simp add: minutesAdjustment_def salah_def)

lemma minutesAdjustment_mings: "minutesAdjustment mings = 3"
  by (simp add: minutesAdjustment_def mings_def)

lemma minutesCertainty_salah: "calculateMinutesCertaintyScore salah = 8"
  by (simp add: minutesCertainty_shape minutesAdjustment_salah statusPenalty_def
      chancePenaltyCumulative_def)
     (simp add: salah_def)

lemma form_salah: "calculateFormScore salah None = 10"
  by (simp add: calculateFormScore_def orZero_def salah_def)

lemma fixture_salah: "calculateFixtureDifficultyScore salah (Some homeGame) [liverpool] = 7"
  by (simp add: calculateFixtureDifficultyScore_def salah_def homeGame_def liverpool_def)

lemma homeAway_salah: "calculateHomeAwayScore salah (Some homeGame) [liverpool] = 600 / 7"
  by (simp add: calculateHomeAwayScore_def salah_def homeGame_def liverpool_def)

lemma factors_salah:
  "predictionFactors salah (Some homeGame) [liverpool] None
   = \<lparr> factor_form = 10, factor_fixtureDifficulty = 7, factor_homeAway = 600 / 7,
       factor_minutesCertainty = 8 \<rparr>"
  by (simp add: predictionFactors_def form_salah fixture_salah homeAway_salah
      minutesCertainty_salah)

text \<open>
  Claim C1. The claim puts every sub-score, and the home/away sub-score in particular, in
  [0, 10]. \<open>calculateHomeAwayScore\<close> returns \<open>(strength / 140) * 10\<close>: for a
  midfielder at home whose team has the home attacking strength 1200 it returns 600/7,
  about 85.7, and this is the home/away factor that enters the prediction.
\<close>

theorem homeAway_score_exceeds_ten:
  "calculateHomeAwayScore salah (Some homeGame) [liverpool] = 600 / 7
   \<and> factor_homeAway (predictionFactors salah (Some homeGame) [liverpool] None) = 600 / 7
   \<and> \<not> factor_homeAway (predictionFactors salah (Some homeGame) [liverpool] None) \<le> 10"
  by (simp add: factors_salah homeAway_salah)

text \<open>
  Claim C2. The predicted points are \<open>round (1.5 * (0.4 form + 0.3 fixture + 0.1 homeAway
  + 0.2 minutes))\<close> of the four computed sub-scores, for every input. They do not always
  lie in [0, 15]: for the midfielder above (form 5.0, home fixture of difficulty 2, 1800
  minutes) the result is 24.
\<close>

theorem predictedPoints_formula_and_overshoot:
  "predictedPoints (predictPlayerPoints player fx teams history)
     = round (1.5 * (0.4 * calculateFormScore player history
                     + 0.3 * calculateFixtureDifficultyScore player fx teams
                     + 0.1 * calculateHomeAwayScore player fx teams
                     + 0.2 * calculateMinutesCertaintyScore player))
   \<and> predictedPoints (predictPlayerPoints salah (Some homeGame) [liverpool] None) = 24"
proof -
  have "predictedPoints (predictPlayerPoints player fx teams history)
     = round (1.5 * (0.4 * calculateFormScore player history
                     + 0.3 * calculateFixtureDifficultyScore player fx teams
                     + 0.1 * calculateHomeAwayScore player fx teams
                     + 0.2 * calculateMinutesCertaintyScore player))"
    by (simp add: predictPlayerPoints_def Let_def weightedScore_def predictionFactors_def
        mult.commute)
  moreover have "predictedPoints (predictPlayerPoints salah (Some homeGame) [liverpool] None) = 24"
    by (simp add: predictPlayerPoints_def factors_salah weightedScore_def Let_def round_def)
  ultimately show ?thesis by simp
qed

lemma minutesAdjustment_gordon: "minutesAdjustment gordon = 0"
  by (simp add: minutesAdjustment_def gordon_def)

text \<open>
  Claim C4, as stated, lists the chance penalties as a threshold table (below 50: 2 off,
  below 75: 1 off). An available player with a 25 percent chance and 900 minutes would
  then score 5 - 2 = 3. The code runs both tests one after the other and returns
  5 - 2 - 1 = 2.
\<close>

theorem minutesCertainty_listed_counterexample:
  "calculateMinutesCertaintyScore gordon = 2 \<and> minutesCertaintyListed gordon = 3"
proof -
  have g: "status gordon = Available" "chance_of_playing_this_round gordon = Some 25"
    by (simp_all add: gordon_def)
  have "calculateMinutesCertaintyScore gordon = 2"
    by (simp add: minutesCertainty_shape minutesAdjustment_gordon statusPenalty_def
        chancePenaltyCumulative_def g)
  moreover have "minutesCertaintyListed gordon = 3"
    by (simp add: minutesCertaintyListed_def minutesAdjustment_gordon statusPenalty_def
        chancePenaltyListed_def clamp_def g)
  ultimately show ?thesis by simp
qed

text \<open>
  Claim C4, amended. The minutes-certainty score is 0 for an injured or suspended player
  and for a chance of playing of 0; in every other case it is 5, less 3 for a status other
  than available, less 2 for a chance below 50 and less a further 1 for a chance below 75
  (3 in all below 50), adjusted for the minutes played against 20 matches of 90 minutes
  (3 on above 80 percent, else 1 on above 60 percent, else 2 off below 30 percent),
  clamped to [0, 10]. It always lies in [0, 10].
\<close>

theorem minutesCertainty_characterisation:
  "0 \<le> calculateMinutesCertaintyScore p \<and> calculateMinutesCertaintyScore p \<le> 10
   \<and> (status p = Injured \<or> status p = Suspended \<longrightarrow> calculateMinutesCertaintyScore p = 0)
   \<and> (chance_of_playing_this_round p = Some 0 \<longrightarrow> calculateMinutesCertaintyScore p = 0)
   \<and> (status p \<noteq> Injured \<and> status p \<noteq> Suspended \<and> chance_of_playing_this_round p \<noteq> Some 0 \<longrightarrow>
        calculateMinutesCertaintyScore p
        = clamp 0 10 (5 - statusPenalty p - chancePenaltyCumulative p + minutesAdjustment p))"
  using clamp10_range [of "5 - statusPenalty p - chancePenaltyCumulative p + minutesAdjustment p"]
  by (simp add: minutesCertainty_shape clamp_def min.commute)

text \<open>
  An injured goalkeeper with a regular starter's minutes scores 0; a doubtful defender with
  a 25 percent chance and 1500 minutes scores 5 - 3 - 2 - 1 + 3 = 2.
\<close>

theorem minutesCertainty_characterisation_witness:
  "status alisson = Injured \<and> chance_of_playing_this_round alisson = Some 0
   \<and> calculateMinutesCertaintyScore alisson = 0
   \<and> status mings \<noteq> Injured \<and> status mings \<noteq> Suspended
   \<and> chance_of_playing_this_round mings \<noteq> Some 0
   \<and> calculateMinutesCertaintyScore mings = 2"
proof -
  have a: "status alisson = Injured" "chance_of_playing_this_round alisson = Some 0"
    by (simp_all add: alisson_def)
  have m: "status mings = Doubtful" "chance_of_playing_this_round mings = Some 25"
    by (simp_all add: mings_def)
  have "calculateMinutesCertaintyScore alisson = 0"
    using minutesCertainty_characterisation [of alisson] a by simp
  moreover have "calculateMinutesCertaintyScore mings = 2"
    using minutesCertainty_characterisation [of mings] m
    by (simp add: statusPenalty_def chancePenaltyCumulative_def minutesAdjustment_mings clamp_def)
  ultimately show ?thesis using a m by simp
qed

section \<open>Transfer suggestions\<close>

lemma scorePair_saka:
  "scorePair salah saka
   = \<lparr> playerOut = salah, playerIn = saka, expectedGain = 6,
       metrics = \<lparr> metric_base = 50, metric_mins = 80, metric_fixt = 70, metric_form = 50 \<rparr> \<rparr>"
  by (simp add: scorePair_def Let_def orZero_def salah_def saka_def)

lemma scorePair_foden:
  "scorePair salah foden
   = \<lparr> playerOut = salah, playerIn = foden, expectedGain = 6,
       metrics = \<lparr> metric_base = 50, metric_mins = 80, metric_fixt = 70, metric_form = 50 \<rparr> \<rparr>"
  by (simp add: scorePair_def Let_def orZero_def salah_def foden_def)

lemma candidates_salah:
  "candidates [salah] [salah, saka, haaland, foden] 0 salah = [saka, foden]"
  by (simp add: candidates_def Let_def teamTeams_def salah_def saka_def foden_def haaland_def)

lemma suggestions_salah:
  "suggestions [salah] [salah, saka, haaland, foden] 0
   = [scorePair salah saka, scorePair salah foden]"
  by (simp add: suggestions_def results_def candidates_salah scorePair_saka scorePair_foden)

lemma results_gain: "s \<in> set (results tp ap b) \<Longrightarrow> 5 < expectedGain s"
  by (auto simp: results_def)

lemma results_scored:
  "s \<in> set (results tp ap b) \<Longrightarrow>
     \<exists>pOut \<in> set tp. \<exists>pIn \<in> set (candidates tp ap b pOut). s = scorePair pOut pIn"
  by (auto simp: results_def)

lemma suggestions_subset: "set (suggestions tp ap b) \<subseteq> set (results tp ap b)"
  unfolding suggestions_def
  using set_take_subset [of 9 "sort_key (\<lambda>s. - expectedGain s) (results tp ap b)"]
  by simp

lemma sort_desc:
  "sorted_wrt (\<lambda>a b. expectedGain a \<ge> expectedGain b) (sort_key (\<lambda>s. - expectedGain s) xs)"
proof -
  have "sorted (map (\<lambda>s. - expectedGain s) (sort_key (\<lambda>s. - expectedGain s) xs))"
    by (rule sorted_sort_key)
  then show ?thesis by (simp add: sorted_map)
qed

lemma scorePair_fields:
  "playerOut (scorePair pOut pIn) = pOut \<and> playerIn (scorePair pOut pIn) = pIn"
  by (simp add: scorePair_def Let_def)

lemma scorePair_scored:
  "scoredAsSpecified
     (case points_per_game pIn of None \<Rightarrow> 0 | Some v \<Rightarrow> v)
     (case points_per_game pOut of None \<Rightarrow> 0 | Some v \<Rightarrow> v)
     (case form pIn of None \<Rightarrow> 0 | Some v \<Rightarrow> v)
     (case form pOut of None \<Rightarrow> 0 | Some v \<Rightarrow> v)
     (scorePair pOut pIn)"
  by (simp add: scoredAsSpecified_def scorePair_def orZero_def Let_def clamp_def
      max_min_distrib2 mult.commute)

lemma candidates_palmer:
  "candidates [salah] [salah, palmer, haaland] 0 salah = [palmer]"
  by (simp add: candidates_def Let_def teamTeams_def salah_def palmer_def haaland_def)

lemma gain_palmer: "expectedGain (scorePair salah palmer) = 69 / 10"
  by (simp add: scorePair_def Let_def orZero_def salah_def palmer_def)

lemma suggestions_palmer:
  "suggestions [salah] [salah, palmer, haaland] 0 = [scorePair salah palmer]"
  by (simp add: suggestions_def results_def candidates_palmer gain_palmer)

text \<open>
  Claim C3, as stated, asks for a strictly descending list. Two midfielders with the same
  form and points per game as the outgoing one both score 6, and both are suggested.
\<close>

theorem suggestions_ties_counterexample:
  "\<not> strictlyDescending (suggestions [salah] [salah, saka, haaland, foden] 0)"
  by (simp add: suggestions_salah strictlyDescending_def scorePair_saka scorePair_foden)

text \<open>
  Claim C3, amended. For every squad, pool and bank the suggestion list holds no pair with
  \<open>expectedGain \<le> 5\<close>, is sorted descending by \<open>expectedGain\<close> (pairs of equal gain
  may follow one another), and has at most 9 entries overall.
\<close>

theorem suggestions_filtered_descending_capped:
  "(\<forall>s \<in> set (suggestions tp ap b). 5 < expectedGain s)
   \<and> descending (suggestions tp ap b)
   \<and> length (suggestions tp ap b) \<le> 9"
proof -
  have "\<forall>s \<in> set (suggestions tp ap b). 5 < expectedGain s"
    using suggestions_subset results_gain by blast
  moreover have "descending (suggestions tp ap b)"
    unfolding descending_def suggestions_def by (rule sorted_wrt_take) (rule sort_desc)
  moreover have "length (suggestions tp ap b) \<le> 9"
    by (simp add: suggestions_def)
  ultimately show ?thesis by blast
qed

text \<open>The list of the two tied suggestions: both gains exceed 5, and the order is descending.\<close>

theorem suggestions_filtered_descending_capped_witness:
  "scorePair salah foden \<in> set (suggestions [salah] [salah, saka, haaland, foden] 0)
   \<and> 5 < expectedGain (scorePair salah foden)
   \<and> descending (suggestions [salah] [salah, saka, haaland, foden] 0)
   \<and> length (suggestions [salah] [salah, saka, haaland, foden] 0) = 2"
proof -
  have i: "scorePair salah foden \<in> set (suggestions [salah] [salah, saka, haaland, foden] 0)"
    by (simp add: suggestions_salah)
  have l: "length (suggestions [salah] [salah, saka, haaland, foden] 0) = 2"
    by (simp add: suggestions_salah)
  from i l suggestions_filtered_descending_capped [of "[salah]" "[salah, saka, haaland, foden]" 0]
  show ?thesis by blast
qed

text \<open>
  Claim C5. Every pair the scorer scores, and so every pair in the suggestion list, has
  \<open>base = clamp(0, 100, 50 + 10 (ppgIn - ppgOut))\<close>, \<open>minutesScore\<close> 80 for an
  available incoming player and 40 otherwise, the constant \<open>fixtureScore\<close> 70,
  \<open>formScore = clamp(0, 100, 50 + 20 (formIn - formOut))\<close> and \<open>expectedGain = (0.3
  base + 0.2 minutesScore + 0.2 fixtureScore + 0.3 formScore) / 10\<close>, where \<open>ppgIn\<close>,
  \<open>ppgOut\<close>, \<open>formIn\<close> and \<open>formOut\<close> are the numbers read from the points per
  game and the form of its own incoming and outgoing player (0 where the string is not a
  number).
\<close>

theorem transfer_scoring_formulas:
  "playerOut (scorePair pOut pIn) = pOut \<and> playerIn (scorePair pOut pIn) = pIn
   \<and> scoredAsSpecified
        (case points_per_game pIn of None \<Rightarrow> 0 | Some v \<Rightarrow> v)
        (case points_per_game pOut of None \<Rightarrow> 0 | Some v \<Rightarrow> v)
        (case form pIn of None \<Rightarrow> 0 | Some v \<Rightarrow> v)
        (case form pOut of None \<Rightarrow> 0 | Some v \<Rightarrow> v)
        (scorePair pOut pIn)
   \<and> (\<forall>s \<in> set (suggestions tp ap b).
         scoredAsSpecified
           (case points_per_game (playerIn s) of None \<Rightarrow> 0 | Some v \<Rightarrow> v)
           (case points_per_game (playerOut s) of None \<Rightarrow> 0 | Some v \<Rightarrow> v)
           (case form (playerIn s) of None \<Rightarrow> 0 | Some v \<Rightarrow> v)
           (case form (playerOut s) of None \<Rightarrow> 0 | Some v \<Rightarrow> v)
           s)"
proof -
  have "scoredAsSpecified
           (case points_per_game (playerIn s) of None \<Rightarrow> 0 | Some v \<Rightarrow> v)
           (case points_per_game (playerOut s) of None \<Rightarrow> 0 | Some v \<Rightarrow> v)
           (case form (playerIn s) of None \<Rightarrow> 0 | Some v \<Rightarrow> v)
           (case form (playerOut s) of None \<Rightarrow> 0 | Some v \<Rightarrow> v)
           s" if "s \<in> set (suggestions tp ap b)" for s
  proof -
    from that have "s \<in> set (results tp ap b)" using suggestions_subset by blast
    then obtain o' i' where e: "s = scorePair o' i'" using results_scored by blast
    have "playerOut s = o'" "playerIn s = i'" using scorePair_fields by (simp_all add: e)
    with scorePair_scored [of i' o'] e show ?thesis by simp
  qed
  then show ?thesis using scorePair_fields scorePair_scored by blast
qed

text \<open>
  Swapping a midfielder (7.0 points per game, form 5.0) for an available one with 8.0 and
  6.0: base 60, minutes 80, fixture 70, form 70, expected gain (18 + 16 + 14 + 21) / 10 =
  6.9; the pair is the one suggestion of the list.
\<close>

theorem transfer_scoring_formulas_witness:
  "scorePair salah palmer \<in> set (suggestions [salah] [salah, palmer, haaland] 0)
   \<and> points_per_game palmer = Some 8 \<and> points_per_game salah = Some 7
   \<and> form palmer = Some 6 \<and> form salah = Some 5
   \<and> metric_base (metrics (scorePair salah palmer)) = 60
   \<and> metric_mins (metrics (scorePair salah palmer)) = 80
   \<and> metric_fixt (metrics (scorePair salah palmer)) = 70
   \<and> metric_form (metrics (scorePair salah palmer)) = 70
   \<and> expectedGain (scorePair salah palmer) = 69 / 10"
proof -
  have i: "scorePair salah palmer \<in> set (suggestions [salah] [salah, palmer, haaland] 0)"
    by (simp add: suggestions_palmer)
  have f: "playerOut (scorePair salah palmer) = salah"
          "playerIn (scorePair salah palmer) = palmer"
    using transfer_scoring_formulas [of salah palmer "[]" "[]" 0] by simp_all
  have p: "points_per_game palmer = Some 8" "points_per_game salah = Some 7"
          "form palmer = Some 6" "form salah = Some 5" "status palmer = Available"
    by (simp_all add: palmer_def salah_def)
  have "scoredAsSpecified
           (case points_per_game (playerIn (scorePair salah palmer)) of None \<Rightarrow> 0 | Some v \<Rightarrow> v)
           (case points_per_game (playerOut (scorePair salah palmer)) of None \<Rightarrow> 0 | Some v \<Rightarrow> v)
           (case form (playerIn (scorePair salah palmer)) of None \<Rightarrow> 0 | Some v \<Rightarrow> v)
           (case form (playerOut (scorePair salah palmer)) of None \<Rightarrow> 0 | Some v \<Rightarrow> v)
           (scorePair salah palmer)"
    using i transfer_scoring_formulas [of salah palmer "[salah]" "[salah, palmer, haaland]" 0]
    by blast
  then have "scoredAsSpecified 8 7 6 5 (scorePair salah palmer)"
    by (simp add: f p)
  then have "metric_base (metrics (scorePair salah palmer)) = 60
   \<and> metric_mins (metrics (scorePair salah palmer)) = 80
   \<and> metric_fixt (metrics (scorePair salah palmer)) = 70
   \<and> metric_form (metrics (scorePair salah palmer)) = 70
   \<and> expectedGain (scorePair salah palmer) = 69 / 10"
    unfolding scoredAsSpecified_def Let_def f p by (simp add: clamp_def)
  with i p show ?thesis by simp
qed

end
